theory Spec2Isabelle
  imports Main
begin

section \<open>Transaction plans\<close>

text \<open>
  A step of a plan as the web client builds it (\<^verbatim>\<open>lib/counterUtils.ts\<close>,
  \<^verbatim>\<open>lib/multisigUtils.ts\<close>): the object literal
  \<^verbatim>\<open>{ to, data, value, chainId }\<close>. The fields \<^verbatim>\<open>to\<close>, \<^verbatim>\<open>data\<close> and
  \<^verbatim>\<open>value\<close> are JavaScript strings, \<^verbatim>\<open>chainId\<close> is a number. Field names carry
  a prefix, since several objects of the source share the names \<^verbatim>\<open>to\<close>,
  \<^verbatim>\<open>data\<close> and \<^verbatim>\<open>value\<close>.
\<close>

record TxStep =
  step_to :: string
  step_data :: string
  step_value :: string
  step_chainId :: nat

type_synonym TxPlan = "TxStep list"

text \<open>The object \<^verbatim>\<open>txData\<close> of an agent response: three strings.\<close>

record TxData =
  txData_to :: string
  txData_data :: string
  txData_value :: string

datatype task_state = completed | failed

section \<open>The counter client: \<^verbatim>\<open>lib/counterUtils.ts\<close>\<close>

text \<open>
  \<^verbatim>\<open>CounterAgentResponse.metadata\<close>. The field \<^verbatim>\<open>operation\<close> is compared with
  \<^verbatim>\<open>===\<close> against string literals, so it is a string here; optional fields
  are options.
\<close>

record CounterMetadata =
  cm_operation :: string
  cm_contractAddress :: string
  cm_currentValue :: string
  cm_expectedNewValue :: "string option"
  cm_newValue :: "string option"
  cm_userAddress :: string
  cm_txData :: "TxData option"

text \<open>
  An agent response \<^verbatim>\<open>{ id, status: { state, message: { role: 'agent', parts } },
  metadata? }\<close>; every part has type \<^verbatim>\<open>'text'\<close>, so \<open>ar_parts\<close> lists the texts.
  The three response interfaces of the source differ in \<^verbatim>\<open>metadata\<close> only.
\<close>

record 'm AgentResponse =
  ar_id :: string
  ar_state :: task_state
  ar_parts :: "string list"
  ar_metadata :: "'m option"

type_synonym CounterAgentResponse = "CounterMetadata AgentResponse"

record CounterTxPreview =
  cp_operation :: string
  cp_contractAddress :: string
  cp_currentValue :: string
  cp_expectedNewValue :: "string option"
  cp_newValue :: "string option"
  cp_userAddress :: string

text \<open>
  \<^verbatim>\<open>extractCounterTransactionData\<close>: the pair \<^verbatim>\<open>{ txPreview, txPlan }\<close>, with
  \<^verbatim>\<open>null\<close> as \<open>None\<close>. An object is truthy, so \<^verbatim>\<open>!metadata\<close> holds exactly
  when the field is absent, and \<^verbatim>\<open>metadata.txData && ...\<close> tests presence.
\<close>

definition extractCounterTransactionData ::
  "CounterAgentResponse \<Rightarrow> CounterTxPreview option \<times> TxPlan option" where
  "extractCounterTransactionData response =
     (case ar_metadata response of
        None \<Rightarrow> (None, None)
      | Some metadata \<Rightarrow>
          (let txPreview =
                 \<lparr> cp_operation = cm_operation metadata,
                   cp_contractAddress = cm_contractAddress metadata,
                   cp_currentValue = cm_currentValue metadata,
                   cp_expectedNewValue = cm_expectedNewValue metadata,
                   cp_newValue = cm_newValue metadata,
                   cp_userAddress = cm_userAddress metadata \<rparr>;
               txPlan =
                 (case cm_txData metadata of
                    None \<Rightarrow> None
                  | Some td \<Rightarrow>
                      if cm_operation metadata = ''increment'' \<or> cm_operation metadata = ''set''
                      then Some [\<lparr> step_to = txData_to td,
                                   step_data = txData_data td,
                                   step_value = txData_value td,
                                   step_chainId = 421614 \<rparr>]
                      else None)
           in (Some txPreview, txPlan)))"

section \<open>The multisig client: \<^verbatim>\<open>lib/multisigUtils.ts\<close>\<close>

record SwapDetails =
  sd_fromToken :: string
  sd_toToken :: string
  sd_amount :: string
  sd_fromChain :: "string option"
  sd_toChain :: "string option"

record TransactionDetails =
  td_to :: string
  td_value :: string
  td_data :: string
  td_executed :: bool
  td_numConfirmations :: string

text \<open>
  The file holds two revisions of \<^verbatim>\<open>MultisigTradeAgentResponse\<close> and of
  \<^verbatim>\<open>extractMultisigTransactionData\<close>. The first (lines 3 to 105) knows the
  operations swap, initialize, submitTransaction, confirmTransaction,
  executeTransaction and isOwner; the second (lines 107 to 228) adds the deposit
  fields and the read results, and knows deposit and revokeConfirmation instead of
  submitTransaction. The second metadata record extends the first by the new fields.
\<close>

record MultisigMetadata =
  mm_operation :: string
  mm_multisigContractAddress :: string
  mm_userAddress :: string
  mm_swapDetails :: "SwapDetails option"
  mm_originalSwapTx :: "TxData option"
  mm_owners :: "string list option"
  mm_numConfirmationsRequired :: "int option"
  mm_txIndex :: "int option"
  mm_isOwner :: "bool option"
  mm_checkAddress :: "string option"
  mm_txData :: "TxData option"

record MultisigMetadata2 = MultisigMetadata +
  mm_ethAmount :: "string option"
  mm_ethValueInWei :: "string option"
  mm_transactionDetails :: "TransactionDetails option"
  mm_transactionCount :: "string option"

record MultisigTxPreview =
  mp_operation :: string
  mp_multisigContractAddress :: string
  mp_userAddress :: string
  mp_swapDetails :: "SwapDetails option"
  mp_originalSwapTx :: "TxData option"
  mp_owners :: "string list option"
  mp_numConfirmationsRequired :: "int option"
  mp_txIndex :: "int option"
  mp_isOwner :: "bool option"
  mp_checkAddress :: "string option"

record MultisigTxPreview2 = MultisigTxPreview +
  mp_ethAmount :: "string option"
  mp_ethValueInWei :: "string option"
  mp_transactionDetails :: "TransactionDetails option"
  mp_transactionCount :: "string option"

text \<open>The write operations each revision tests for, in the order of the source.\<close>

definition multisig_write_operations :: "string list" where
  "multisig_write_operations =
     [''swap'', ''initialize'', ''submitTransaction'', ''confirmTransaction'',
      ''executeTransaction'']"

definition multisig_write_operations2 :: "string list" where
  "multisig_write_operations2 =
     [''swap'', ''initialize'', ''deposit'', ''confirmTransaction'',
      ''executeTransaction'', ''revokeConfirmation'']"

text \<open>\<^verbatim>\<open>extractMultisigTransactionData\<close>, first revision (lines 54 to 105).\<close>

definition extractMultisigTransactionData ::
  "MultisigMetadata AgentResponse \<Rightarrow> MultisigTxPreview option \<times> TxPlan option" where
  "extractMultisigTransactionData response =
     (case ar_metadata response of
        None \<Rightarrow> (None, None)
      | Some metadata \<Rightarrow>
          (let txPreview =
                 \<lparr> mp_operation = mm_operation metadata,
                   mp_multisigContractAddress = mm_multisigContractAddress metadata,
                   mp_userAddress = mm_userAddress metadata,
                   mp_swapDetails = mm_swapDetails metadata,
                   mp_originalSwapTx = mm_originalSwapTx metadata,
                   mp_owners = mm_owners metadata,
                   mp_numConfirmationsRequired = mm_numConfirmationsRequired metadata,
                   mp_txIndex = mm_txIndex metadata,
                   mp_isOwner = mm_isOwner metadata,
                   mp_checkAddress = mm_checkAddress metadata \<rparr>;
               txPlan =
                 (case mm_txData metadata of
                    None \<Rightarrow> None
                  | Some td \<Rightarrow>
                      if mm_operation metadata = ''swap'' \<or>
                         mm_operation metadata = ''initialize'' \<or>
                         mm_operation metadata = ''submitTransaction'' \<or>
                         mm_operation metadata = ''confirmTransaction'' \<or>
                         mm_operation metadata = ''executeTransaction''
                      then Some [\<lparr> step_to = txData_to td,
                                   step_data = txData_data td,
                                   step_value = txData_value td,
                                   step_chainId = 421614 \<rparr>]
                      else None)
           in (Some txPreview, txPlan)))"

text \<open>\<^verbatim>\<open>extractMultisigTransactionData\<close>, second revision (lines 170 to 228).\<close>

definition extractMultisigTransactionData2 ::
  "MultisigMetadata2 AgentResponse \<Rightarrow> MultisigTxPreview2 option \<times> TxPlan option" where
  "extractMultisigTransactionData2 response =
     (case ar_metadata response of
        None \<Rightarrow> (None, None)
      | Some metadata \<Rightarrow>
          (let txPreview =
                 \<lparr> mp_operation = mm_operation metadata,
                   mp_multisigContractAddress = mm_multisigContractAddress metadata,
                   mp_userAddress = mm_userAddress metadata,
                   mp_swapDetails = mm_swapDetails metadata,
                   mp_originalSwapTx = mm_originalSwapTx metadata,
                   mp_owners = mm_owners metadata,
                   mp_numConfirmationsRequired = mm_numConfirmationsRequired metadata,
                   mp_txIndex = mm_txIndex metadata,
                   mp_isOwner = mm_isOwner metadata,
                   mp_checkAddress = mm_checkAddress metadata,
                   mp_ethAmount = mm_ethAmount metadata,
                   mp_ethValueInWei = mm_ethValueInWei metadata,
                   mp_transactionDetails = mm_transactionDetails metadata,
                   mp_transactionCount = mm_transactionCount metadata \<rparr>;
               txPlan =
                 (case mm_txData metadata of
                    None \<Rightarrow> None
                  | Some td \<Rightarrow>
                      if mm_operation metadata = ''swap'' \<or>
                         mm_operation metadata = ''initialize'' \<or>
                         mm_operation metadata = ''deposit'' \<or>
                         mm_operation metadata = ''confirmTransaction'' \<or>
                         mm_operation metadata = ''executeTransaction'' \<or>
                         mm_operation metadata = ''revokeConfirmation''
                      then Some [\<lparr> step_to = txData_to td,
                                   step_data = txData_data td,
                                   step_value = txData_value td,
                                   step_chainId = 421614 \<rparr>]
                      else None)
           in (Some txPreview, txPlan)))"

section \<open>The counter agent: \<^verbatim>\<open>counter-agent-no-wallet/src/agent.ts\<close>\<close>

subsection \<open>Strings and the two regular expressions\<close>



definition is_digit :: "char \<Rightarrow> bool" where
  "is_digit c = (48 \<le> (of_char c :: nat) \<and> (of_char c :: nat) \<le> 57)"


fun startsWith :: "string \<Rightarrow> string \<Rightarrow> bool" where
  "startsWith s [] = True"
| "startsWith [] (p # ps) = False"
| "startsWith (c # cs) (p # ps) = (c = p \<and> startsWith cs ps)"





text \<open>
  The JavaScript numbers the agent meets are doubles that are non-negative integers,
  or \<^verbatim>\<open>Infinity\<close>: \<open>Finite v\<close> is the double whose value is the integer \<open>v\<close>.
\<close>

datatype js_number = Finite nat | PosInfinity

text \<open>The number of binary digits of a natural number.\<close>

function bitLength :: "nat \<Rightarrow> nat" where
  "bitLength n = (if n = 0 then 0 else Suc (bitLength (n div 2)))"
  by pat_completeness auto
termination
  by (relation "measure (\<lambda>n. n)") auto

declare bitLength.simps [simp del]

text \<open>
  The double nearest to a non-negative integer: exact below \<open>2\<^sup>5\<^sup>3\<close>; above, the
  integer is rounded to 53 significant binary digits, a tie going to the even
  significand, and the result is \<^verbatim>\<open>Infinity\<close> from \<open>2\<^sup>1\<^sup>0\<^sup>2\<^sup>4\<close> on.
\<close>

definition roundToDouble :: "nat \<Rightarrow> js_number" where
  "roundToDouble n =
     (if n < 2 ^ 53 then Finite n
      else (let e = bitLength n - 53;
                q = n div 2 ^ e;
                r = n mod 2 ^ e;
                half = 2 ^ (e - 1);
                q' = (if r > half \<or> (r = half \<and> odd q) then q + 1 else q);
                v = q' * 2 ^ e
            in if v \<ge> 2 ^ 1024 then PosInfinity else Finite v))"




subsection \<open>Thrown values\<close>

text \<open>
  What a \<^verbatim>\<open>throw\<close> or a rejected promise carries. \<open>JsError m\<close> is an ordinary
  instance of \<^verbatim>\<open>Error\<close> with the string \<open>m\<close> as its message, as
  \<^verbatim>\<open>new Error(m)\<close> makes it. \<open>Other l t\<close> is any other value \<open>v\<close>, given by the
  two things the code does with a caught value. \<open>l\<close> is what
  \<^verbatim>\<open>console.error('[CounterAgent] Error:', v)\<close> does: \<open>None\<close> when it returns,
  \<open>Some u\<close> when printing \<open>v\<close> throws \<open>u\<close>. \<open>t\<close> is what turning \<open>v\<close> into the text
  of a message does, that is
  \<^verbatim>\<open>`${v instanceof Error ? v.message : String(v)}`\<close>: \<open>Inr s\<close> when it yields the
  string \<open>s\<close>, \<open>Inl u\<close> when it throws \<open>u\<close> (a \<^verbatim>\<open>toString\<close>, a getter or a proxy
  trap may throw any value, and \<^verbatim>\<open>String(Object.create(null))\<close> throws a
  \<^verbatim>\<open>TypeError\<close>).
\<close>

datatype thrown = JsError string | Other "thrown option" "thrown + string"

text \<open>
  \<^verbatim>\<open>error instanceof Error ? error.message : String(error)\<close>, together with the
  template literal that takes the result in: the text, or the value thrown on the way.
\<close>

fun error_text :: "thrown \<Rightarrow> thrown + string" where
  "error_text (JsError m) = Inr m"
| "error_text (Other l t) = t"


text \<open>
  The \<^verbatim>\<open>Task\<close> the agent returns: an agent response with the metadata of the
  counter.
\<close>

type_synonym Task = "CounterMetadata AgentResponse"

text \<open>
  The \<^verbatim>\<open>catch\<close> block of the three handlers:
  \<^verbatim>\<open>throw new Error(`<prefix>${error instanceof Error ? error.message : String(error)}`)\<close>.
\<close>

definition rethrow :: "string \<Rightarrow> thrown \<Rightarrow> thrown + Task" where
  "rethrow prefix e =
     (case error_text e of
        Inl t \<Rightarrow> Inl t
      | Inr m \<Rightarrow> Inl (JsError (prefix @ m)))"

subsection \<open>The operations\<close>


text \<open>
  What the agent takes from outside: the chain read (\<^verbatim>\<open>publicClient.readContract\<close>
  of \<^verbatim>\<open>number()\<close>, which returns a bigint or rejects), the ABI encoder
  (\<^verbatim>\<open>encodeFunctionData\<close>, for \<^verbatim>\<open>increment\<close> and for \<^verbatim>\<open>setNumber\<close> with its
  bigint argument), the clock (read once in the \<^verbatim>\<open>try\<close> block, once in the
  \<^verbatim>\<open>catch\<close> block) and the random suffix of the task id, the rendering of a finite
  JavaScript number as a string, and the contract address given to the constructor.
\<close>

record Externals =
  contractAddress :: string
  readContract :: "thrown + nat"
  encodeIncrement :: "thrown + string"
  encodeSetNumber :: "nat \<Rightarrow> thrown + string"
  now :: nat
  now_on_error :: nat
  random_suffix :: string
  number_toString :: "nat \<Rightarrow> string"

text \<open>\<^verbatim>\<open>currentValue.toString()\<close> of a bigint: its decimal digits.\<close>

function bigint_toString :: "nat \<Rightarrow> string" where
  "bigint_toString n =
     (if n < 10 then [char_of (48 + n)]
      else bigint_toString (n div 10) @ [char_of (48 + n mod 10)])"
  by pat_completeness auto
termination
  by (relation "measure (\<lambda>n. n)") auto

declare bigint_toString.simps [simp del]

text \<open>\<^verbatim>\<open>n.toString()\<close> and \<^verbatim>\<open>`${n}`\<close> of a JavaScript number.\<close>

definition number_text :: "Externals \<Rightarrow> js_number \<Rightarrow> string" where
  "number_text ext n =
     (case n of Finite v \<Rightarrow> number_toString ext v | PosInfinity \<Rightarrow> ''Infinity'')"

text \<open>
  \<^verbatim>\<open>Number(currentValue) + 1\<close>: the bigint becomes the nearest double, and the sum
  is rounded again.
\<close>

definition number_plus_one :: "nat \<Rightarrow> js_number" where
  "number_plus_one currentValue =
     (case roundToDouble currentValue of
        Finite v \<Rightarrow> roundToDouble (v + 1)
      | PosInfinity \<Rightarrow> PosInfinity)"

text \<open>
  \<^verbatim>\<open>BigInt(newValue)\<close>: the integer of a finite number; a \<^verbatim>\<open>RangeError\<close> for
  \<^verbatim>\<open>Infinity\<close>.
\<close>

definition toBigInt :: "js_number \<Rightarrow> thrown + nat" where
  "toBigInt n =
     (case n of
        Finite v \<Rightarrow> Inr v
      | PosInfinity \<Rightarrow>
          Inl (JsError (''The number Infinity cannot be converted to a BigInt ''
                        @ ''because it is not an integer'')))"



definition handleIncrement :: "Externals \<Rightarrow> string \<Rightarrow> string \<Rightarrow> thrown + Task" where
  "handleIncrement ext taskId userAddress =
     (case readContract ext of
        Inl e \<Rightarrow> rethrow ''Failed to prepare increment transaction: '' e
      | Inr currentValue \<Rightarrow>
          (case encodeIncrement ext of
             Inl e \<Rightarrow> rethrow ''Failed to prepare increment transaction: '' e
           | Inr txData \<Rightarrow>
               Inr \<lparr> ar_id = taskId,
                     ar_state = completed,
                     ar_parts =
                       [''Ready to increment counter from '' @ bigint_toString currentValue
                        @ '' to '' @ number_text ext (number_plus_one currentValue)
                        @ ''. Please confirm the transaction in MetaMask.''],
                     ar_metadata = Some
                       \<lparr> cm_operation = ''increment'',
                         cm_contractAddress = contractAddress ext,
                         cm_currentValue = bigint_toString currentValue,
                         cm_expectedNewValue =
                           Some (number_text ext (number_plus_one currentValue)),
                         cm_newValue = None,
                         cm_userAddress = userAddress,
                         cm_txData = Some
                           \<lparr> txData_to = contractAddress ext,
                             txData_data = txData,
                             txData_value = ''0x0'' \<rparr> \<rparr> \<rparr>))"

definition handleSet ::
  "Externals \<Rightarrow> string \<Rightarrow> string \<Rightarrow> js_number \<Rightarrow> thrown + Task" where
  "handleSet ext taskId userAddress newValue =
     (case readContract ext of
        Inl e \<Rightarrow> rethrow ''Failed to prepare set transaction: '' e
      | Inr currentValue \<Rightarrow>
          (case (case toBigInt newValue of
                   Inl e \<Rightarrow> Inl e
                 | Inr v \<Rightarrow> encodeSetNumber ext v) of
             Inl e \<Rightarrow> rethrow ''Failed to prepare set transaction: '' e
           | Inr txData \<Rightarrow>
               Inr \<lparr> ar_id = taskId,
                     ar_state = completed,
                     ar_parts =
                       [''Ready to set counter from '' @ bigint_toString currentValue
                        @ '' to '' @ number_text ext newValue
                        @ ''. Please confirm the transaction in MetaMask.''],
                     ar_metadata = Some
                       \<lparr> cm_operation = ''set'',
                         cm_contractAddress = contractAddress ext,
                         cm_currentValue = bigint_toString currentValue,
                         cm_expectedNewValue = None,
                         cm_newValue = Some (number_text ext newValue),
                         cm_userAddress = userAddress,
                         cm_txData = Some
                           \<lparr> txData_to = contractAddress ext,
                             txData_data = txData,
                             txData_value = ''0x0'' \<rparr> \<rparr> \<rparr>))"










section \<open>The transaction plan executor\<close>

text \<open>
  The component \<^verbatim>\<open>components/MultisigTrade.tsx\<close> imports the executor from
  \<^verbatim>\<open>../hooks/useTransactionExecutor\<close>, a file that is not among the sources. Its
  state, its derived flags and its two commands are therefore defined from sections 3,
  4.1, 5 and 8 of the specification.
\<close>

text \<open>
  Modelled from the spec: the error taxonomy of section 7 (\<^verbatim>\<open>chain-switch-failed\<close>,
  \<^verbatim>\<open>wallet-rejected\<close>, \<^verbatim>\<open>transaction-reverted\<close>, \<^verbatim>\<open>unknown\<close>); the hook that
  would declare it is missing.
\<close>

datatype error_reason =
  chain_switch_failed | wallet_rejected | transaction_reverted | unknown

text \<open>
  Modelled from the spec: the status of a step, one of idle, pending, success,
  error(reason) (section 3); the hook that would declare it is missing.
\<close>

datatype step_status = Idle | Pending | Success | Error error_reason

text \<open>
  Modelled from the spec: the ExecutionState of section 3, missing with the hook.
  \<open>stepStatus\<close> holds the status of approval step \<open>i\<close> at index \<open>i\<close>, \<open>mainStatus\<close>
  that of the main step. \<open>totalApprovals\<close> is fixed by the plan and is the function
  below.
\<close>

record ExecutionState =
  approvalIndex :: nat
  stepStatus :: "step_status list"
  mainStatus :: step_status

text \<open>
  Modelled from the spec: the inputs the executor accepts at construction and update
  (section 4.1), missing with the hook: \<^verbatim>\<open>txPlan: TxPlan | null\<close>,
  \<^verbatim>\<open>isConnected\<close>, \<^verbatim>\<open>address: string | null\<close>, \<^verbatim>\<open>currentChainId: integer | null\<close>.
\<close>

record ExecutorInput =
  txPlan :: "TxPlan option"
  isConnected :: bool
  address :: "string option"
  currentChainId :: "nat option"

text \<open>
  Modelled from the spec: the outcome of \<^verbatim>\<open>sendTransaction(step)\<close> in the
  WalletGateway contract of section 6, \<^verbatim>\<open>{ success: true } | { success: false, reason }\<close>;
  the gateway is missing with the hook.
\<close>

datatype send_result = Confirmed | Rejected error_reason

text \<open>
  Modelled from the spec: the WalletGateway of section 6 as the executor consumes it,
  missing with the hook. Each operation suspends and then resolves or rejects; the
  record gives the outcome of each: \<open>switchChain w c\<close> holds when the switch to chain
  \<open>c\<close> resolves.
\<close>

record WalletGateway =
  switchChain :: "nat \<Rightarrow> bool"
  sendTransaction :: "TxStep \<Rightarrow> send_result"

text \<open>
  Modelled from the spec: the calls an invocation makes on the gateway, in the order
  it makes them; the gateway is missing with the hook.
\<close>

datatype wallet_call = SwitchChain nat | SendTransaction TxStep

text \<open>
  Modelled from the spec: \<^verbatim>\<open>totalApprovals = max(0, plan.length - 1)\<close> (section 3),
  computed by the missing hook; \<open>0\<close> when no plan is attached.
\<close>

definition totalApprovals :: "TxPlan option \<Rightarrow> nat" where
  "totalApprovals plan =
     (case plan of
        None \<Rightarrow> 0
      | Some p \<Rightarrow> nat (max 0 (int (length p) - 1)))"

text \<open>
  Modelled from the spec: the ExecutionState created when a plan is attached
  (section 3: \<open>approvalIndex\<close> initially 0, every step idle), which the missing hook
  creates.
\<close>

definition initial :: "TxPlan option \<Rightarrow> ExecutionState" where
  "initial plan =
     \<lparr> approvalIndex = 0,
       stepStatus = replicate (totalApprovals plan) Idle,
       mainStatus = Idle \<rparr>"

text \<open>
  Modelled from the spec: ``plan present'' in the two gating predicates of the missing
  hook. Scenario A of section 8 gives \<^verbatim>\<open>canExecute = false\<close> for the plan \<^verbatim>\<open>[]\<close>,
  and section 3 has a plan with zero steps never submitted, so a plan is present when
  it is not null and has a step.
\<close>

definition planPresent :: "ExecutorInput \<Rightarrow> bool" where
  "planPresent inp = (case txPlan inp of None \<Rightarrow> False | Some p \<Rightarrow> p \<noteq> [])"

text \<open>
  Modelled from the spec: \<^verbatim>\<open>isApprovalPhaseComplete\<close>, true iff
  \<^verbatim>\<open>approvalIndex == totalApprovals\<close> (section 4.1); exposed by the missing hook.
\<close>

definition isApprovalPhaseComplete :: "ExecutorInput \<Rightarrow> ExecutionState \<Rightarrow> bool" where
  "isApprovalPhaseComplete inp s = (approvalIndex s = totalApprovals (txPlan inp))"

text \<open>
  Modelled from the spec: the status of the step at \<open>approvalIndex\<close>, which the read
  state \<^verbatim>\<open>isApprovalPending\<close> and \<^verbatim>\<open>approvalError\<close> of the missing hook look at;
  \<open>None\<close> when the approval phase has no step at that index.
\<close>

definition currentApprovalStatus :: "ExecutionState \<Rightarrow> step_status option" where
  "currentApprovalStatus s =
     (if approvalIndex s < length (stepStatus s)
      then Some (stepStatus s ! approvalIndex s) else None)"

text \<open>
  Modelled from the spec: \<^verbatim>\<open>isApprovalPending\<close>, true iff the step at
  \<open>approvalIndex\<close> has status pending (section 4.1); exposed by the missing hook.
\<close>

definition isApprovalPending :: "ExecutionState \<Rightarrow> bool" where
  "isApprovalPending s = (currentApprovalStatus s = Some Pending)"

text \<open>
  Modelled from the spec: \<^verbatim>\<open>approvalError\<close>, the error reason of the step at
  \<open>approvalIndex\<close> if its status is error, else absent (section 4.1); exposed by the
  missing hook.
\<close>

definition approvalError :: "ExecutionState \<Rightarrow> error_reason option" where
  "approvalError s =
     (case currentApprovalStatus s of Some (Error r) \<Rightarrow> Some r | _ \<Rightarrow> None)"

text \<open>
  Modelled from the spec: \<^verbatim>\<open>isTxPending\<close>, the mirror of \<open>mainStatus\<close> being pending
  (section 4.1); exposed by the missing hook.
\<close>

definition isTxPending :: "ExecutionState \<Rightarrow> bool" where
  "isTxPending s = (mainStatus s = Pending)"

text \<open>
  Modelled from the spec: \<^verbatim>\<open>isTxSuccess\<close>, the mirror of \<open>mainStatus\<close> being success
  (section 4.1); exposed by the missing hook.
\<close>

definition isTxSuccess :: "ExecutionState \<Rightarrow> bool" where
  "isTxSuccess s = (mainStatus s = Success)"

text \<open>
  Modelled from the spec: \<^verbatim>\<open>txError\<close>, the error reason of \<open>mainStatus\<close> if it is an
  error, else absent (section 4.1); exposed by the missing hook.
\<close>

definition txError :: "ExecutionState \<Rightarrow> error_reason option" where
  "txError s = (case mainStatus s of Error r \<Rightarrow> Some r | _ \<Rightarrow> None)"

text \<open>
  Modelled from the spec: ``no step currently pending'' in \<^verbatim>\<open>canApprove\<close> of the
  missing hook, over the approval steps and the main step.
\<close>

definition anyPending :: "ExecutionState \<Rightarrow> bool" where
  "anyPending s = (list_ex (\<lambda>st. st = Pending) (stepStatus s) \<or> mainStatus s = Pending)"

text \<open>
  Modelled from the spec: \<^verbatim>\<open>canApprove\<close>, true iff connected, plan present,
  \<^verbatim>\<open>!isApprovalPhaseComplete\<close>, and no step currently pending (section 4.1); exposed
  by the missing hook.
\<close>

definition canApprove :: "ExecutorInput \<Rightarrow> ExecutionState \<Rightarrow> bool" where
  "canApprove inp s =
     (isConnected inp \<and> planPresent inp \<and> \<not> isApprovalPhaseComplete inp s \<and> \<not> anyPending s)"

text \<open>
  Modelled from the spec: \<^verbatim>\<open>canExecute\<close>, true iff connected, plan present,
  \<^verbatim>\<open>isApprovalPhaseComplete\<close>, \<^verbatim>\<open>mainStatus != pending\<close> and
  \<^verbatim>\<open>mainStatus != success\<close> (section 4.1); exposed by the missing hook.
\<close>

definition canExecute :: "ExecutorInput \<Rightarrow> ExecutionState \<Rightarrow> bool" where
  "canExecute inp s =
     (isConnected inp \<and> planPresent inp \<and> isApprovalPhaseComplete inp s \<and>
      mainStatus s \<noteq> Pending \<and> mainStatus s \<noteq> Success)"

text \<open>
  Modelled from the spec: what one invocation of a command of the missing hook does:
  the calls it makes on the gateway, in order, and the states the executor passes
  through, one per mutation, in order. The invocation leaves the executor in the last
  of them, or in the state it started from when it changes nothing.
\<close>

record invocation =
  calls :: "wallet_call list"
  states :: "ExecutionState list"

text \<open>
  Modelled from the spec: the invocation that ``fails silently (no-op)'' (section 4.1)
  in the missing hook: no call, no mutation.
\<close>

definition no_op :: invocation where
  "no_op = \<lparr> calls = [], states = [] \<rparr>"

text \<open>
  Modelled from the spec: the state the missing hook is left in by an invocation
  started in \<open>s\<close>.
\<close>

definition final :: "ExecutionState \<Rightarrow> invocation \<Rightarrow> ExecutionState" where
  "final s r = last (s # states r)"

text \<open>
  Modelled from the spec: the sequence (a) to (d) of section 4.1, which both commands
  of the missing hook follow, on the step \<open>st\<close>; \<open>set_status\<close> writes the status of
  that step and \<open>advance\<close> is what confirmation adds to it.
  (a) If the current chain is not the chain of the step, the chain switch is invoked
  and awaited; on rejection the status becomes error(chain-switch-failed) and nothing
  is sent. (b) The status becomes pending. (c) The transaction is submitted. (d) On
  confirmation the status becomes success, then \<open>advance\<close> applies; on failure the
  status becomes error(reason).
\<close>

definition run_step ::
  "ExecutorInput \<Rightarrow> WalletGateway \<Rightarrow> TxStep \<Rightarrow>
   (step_status \<Rightarrow> ExecutionState \<Rightarrow> ExecutionState) \<Rightarrow>
   (ExecutionState \<Rightarrow> ExecutionState list) \<Rightarrow> ExecutionState \<Rightarrow> invocation" where
  "run_step inp w st set_status advance s =
     (let switching = (currentChainId inp \<noteq> Some (step_chainId st));
          switch_calls = (if switching then [SwitchChain (step_chainId st)] else [])
      in if switching \<and> \<not> switchChain w (step_chainId st)
         then \<lparr> calls = switch_calls,
                states = [set_status (Error chain_switch_failed) s] \<rparr>
         else (let s1 = set_status Pending s
               in \<lparr> calls = switch_calls @ [SendTransaction st],
                     states =
                       s1 # (case sendTransaction w st of
                               Confirmed \<Rightarrow>
                                 set_status Success s1 # advance (set_status Success s1)
                             | Rejected reason \<Rightarrow> [set_status (Error reason) s1]) \<rparr>))"

text \<open>
  Modelled from the spec: writing the status of approval step \<open>i\<close>, a mutation of the
  missing hook.
\<close>

definition set_approval_status :: "nat \<Rightarrow> step_status \<Rightarrow> ExecutionState \<Rightarrow> ExecutionState" where
  "set_approval_status i st s = s\<lparr> stepStatus := (stepStatus s)[i := st] \<rparr>"

text \<open>
  Modelled from the spec: ``increment \<open>approvalIndex\<close>'' on confirmation of an approval
  (section 4.1 (d)), one more mutation of the missing hook.
\<close>

definition increment_approvalIndex :: "ExecutionState \<Rightarrow> ExecutionState list" where
  "increment_approvalIndex s = [s\<lparr> approvalIndex := approvalIndex s + 1 \<rparr>]"

text \<open>
  Modelled from the spec: writing \<open>mainStatus\<close>, a mutation of the missing hook.
\<close>

definition set_main_status :: "step_status \<Rightarrow> ExecutionState \<Rightarrow> ExecutionState" where
  "set_main_status st s = s\<lparr> mainStatus := st \<rparr>"

text \<open>
  Modelled from the spec: the approval steps of a plan, those before the last
  (section 3). The missing hook reads them from the plan; \<open>None\<close> where the plan has
  no approval step \<open>i\<close>.
\<close>

definition approvalStep :: "ExecutorInput \<Rightarrow> nat \<Rightarrow> TxStep option" where
  "approvalStep inp i =
     (case txPlan inp of
        None \<Rightarrow> None
      | Some p \<Rightarrow> if i < totalApprovals (txPlan inp) then Some (p ! i) else None)"

text \<open>
  Modelled from the spec: the main step of a plan, its last step (section 3), read
  from the plan by the missing hook; \<open>None\<close> where the plan has no step.
\<close>

definition mainStep :: "ExecutorInput \<Rightarrow> TxStep option" where
  "mainStep inp =
     (case txPlan inp of
        None \<Rightarrow> None
      | Some p \<Rightarrow> if p = [] then None else Some (last p))"

text \<open>
  Modelled from the spec: the command \<^verbatim>\<open>approveNext()\<close> of the missing hook
  (section 4.1). It fails silently if \<^verbatim>\<open>!canApprove\<close>; otherwise it runs (a) to (d)
  on the step at \<open>approvalIndex\<close>, and confirmation increments \<open>approvalIndex\<close>.
  (With \<open>canApprove\<close> and \<open>approvalIndex\<close> beyond \<open>totalApprovals\<close>, which section 3
  excludes, there is no step to run and nothing happens.)
\<close>

definition approveNext :: "ExecutorInput \<Rightarrow> WalletGateway \<Rightarrow> ExecutionState \<Rightarrow> invocation" where
  "approveNext inp w s =
     (if \<not> canApprove inp s then no_op
      else case approvalStep inp (approvalIndex s) of
             None \<Rightarrow> no_op
           | Some st \<Rightarrow>
               run_step inp w st (set_approval_status (approvalIndex s))
                 increment_approvalIndex s)"

text \<open>
  Modelled from the spec: the command \<^verbatim>\<open>executeMain()\<close> of the missing hook
  (section 4.1). It fails silently if \<^verbatim>\<open>!canExecute\<close>; otherwise it follows the
  same sequence against the main step, updating \<open>mainStatus\<close>.
\<close>

definition executeMain :: "ExecutorInput \<Rightarrow> WalletGateway \<Rightarrow> ExecutionState \<Rightarrow> invocation" where
  "executeMain inp w s =
     (if \<not> canExecute inp s then no_op
      else case mainStep inp of
             None \<Rightarrow> no_op
           | Some st \<Rightarrow> run_step inp w st set_main_status (\<lambda>s'. []) s)"

text \<open>
  Modelled from the spec: the states of one executor instance of the missing hook.
  Section 5 gives one logical thread of control per instance, whose state transitions
  never run concurrently and each of whose suspension points is awaited before the
  next mutation is applied: an invocation runs to its end before the next one starts.
  \<open>reachable plan s\<close>: the instance attached to \<open>plan\<close> can rest in \<open>s\<close> between two
  invocations. The connection and the gateway outcomes are free for every invocation;
  the plan is the one attached.
\<close>

inductive reachable :: "TxPlan option \<Rightarrow> ExecutionState \<Rightarrow> bool" for plan where
  attach: "reachable plan (initial plan)"
| approve: "reachable plan s \<Longrightarrow> txPlan inp = plan \<Longrightarrow>
            reachable plan (final s (approveNext inp w s))"
| execute: "reachable plan s \<Longrightarrow> txPlan inp = plan \<Longrightarrow>
            reachable plan (final s (executeMain inp w s))"



text \<open>
  Modelled from the spec: the invariants of section 3 on a state the instance of the
  missing hook rests in: there is a status for every approval step, \<open>approvalIndex\<close>
  never exceeds \<open>totalApprovals\<close>, every approval step before \<open>approvalIndex\<close> has
  succeeded, and no step is pending.
\<close>

definition restInvariant :: "TxPlan option \<Rightarrow> ExecutionState \<Rightarrow> bool" where
  "restInvariant plan s =
     (length (stepStatus s) = totalApprovals plan \<and>
      approvalIndex s \<le> totalApprovals plan \<and>
      list_all (\<lambda>st. st = Success) (take (approvalIndex s) (stepStatus s)) \<and>
      \<not> anyPending s)"


text \<open>
  Modelled from the spec: the read state the missing hook \<^verbatim>\<open>useTransactionExecutor\<close>
  returns, with the names under which \<^verbatim>\<open>MultisigTrade\<close> takes it apart (an error
  is kept as its reason).
\<close>

record HookResult =
  h_approvalIndex :: nat
  h_totalApprovals :: nat
  h_isApprovalPending :: bool
  h_approvalError :: "error_reason option"
  h_isTxPending :: bool
  h_isTxSuccess :: bool
  h_txError :: "error_reason option"
  h_canApprove :: bool
  h_canExecute :: bool
  h_isApprovalPhaseComplete :: bool

text \<open>
  Modelled from the spec: the result of the missing hook \<^verbatim>\<open>useTransactionExecutor\<close>
  for given inputs, in the executor state \<open>s\<close>: all of it derived, recomputed on
  every change (section 4.1).
\<close>

definition useTransactionExecutor :: "ExecutorInput \<Rightarrow> ExecutionState \<Rightarrow> HookResult" where
  "useTransactionExecutor inp s =
     \<lparr> h_approvalIndex = approvalIndex s,
       h_totalApprovals = totalApprovals (txPlan inp),
       h_isApprovalPending = isApprovalPending s,
       h_approvalError = approvalError s,
       h_isTxPending = isTxPending s,
       h_isTxSuccess = isTxSuccess s,
       h_txError = txError s,
       h_canApprove = canApprove inp s,
       h_canExecute = canExecute inp s,
       h_isApprovalPhaseComplete = isApprovalPhaseComplete inp s \<rparr>"

section \<open>The rendered transaction surfaces\<close>

subsection \<open>\<^verbatim>\<open>components/MultisigTrade.tsx\<close>\<close>

text \<open>
  The component renders, for a write operation, a card with up to two buttons. A
  button is its label, its \<^verbatim>\<open>disabled\<close> attribute and the command its
  \<^verbatim>\<open>onClick\<close> invokes.
\<close>

datatype command = ApproveNext | ExecuteMain

record Button =
  button_label :: string
  button_disabled :: bool
  button_onClick :: command

text \<open>
  What the component returns: the read-only card (\<^verbatim>\<open>txPreview && !txPlan\<close>), the
  transaction card with its buttons (connected), the transaction card asking to
  connect a wallet, or an empty fragment. The texts and status banners of the cards
  carry no action and are left out.
\<close>

datatype multisig_view =
  ReadOnlyCard | TransactionCard "Button list" | ConnectWalletCard | EmptyFragment

text \<open>The two buttons, as lines 214 to 241 build them from the hook's result.\<close>

definition actionButtons :: "HookResult \<Rightarrow> Button list" where
  "actionButtons h =
     (let needsApproval = (h_totalApprovals h > 0);
          progress = bigint_toString (h_approvalIndex h + 1) @ ''/''
                     @ bigint_toString (h_totalApprovals h)
      in (if needsApproval
          then [\<lparr> button_label =
                     (if h_isApprovalPending h then ''Approving '' @ progress @ ''...''
                      else if h_isApprovalPhaseComplete h then ''All Approved''
                      else ''Approve '' @ progress),
                   button_disabled = (\<not> h_canApprove h),
                   button_onClick = ApproveNext \<rparr>]
          else [])
         @ [\<lparr> button_label =
                 (if h_isTxPending h then ''Executing...''
                  else if needsApproval then ''Execute Transaction''
                  else ''Sign Transaction''),
               button_disabled = (\<not> h_canExecute h),
               button_onClick = ExecuteMain \<rparr>])"

text \<open>
  \<^verbatim>\<open>MultisigTrade\<close>, as a function of its props \<open>txPreview\<close> and \<open>txPlan\<close>, of
  \<^verbatim>\<open>isConnected\<close> from \<^verbatim>\<open>useAccount()\<close>, and of the result \<open>h\<close> of the executor
  hook, which is not among the sources. The component hands the hook its own
  \<open>txPlan\<close>, the account and the chain. A JavaScript array is truthy also when it is
  empty, so \<^verbatim>\<open>!txPlan\<close> holds for \<^verbatim>\<open>null\<close> only.
\<close>

definition MultisigTrade ::
  "'p option \<Rightarrow> TxPlan option \<Rightarrow> bool \<Rightarrow> HookResult \<Rightarrow> multisig_view" where
  "MultisigTrade txPreview txPlan' isConnected' h =
     (if txPreview \<noteq> None \<and> txPlan' = None then ReadOnlyCard
      else if txPlan' \<noteq> None \<and> txPreview \<noteq> None
      then (if isConnected' then TransactionCard (actionButtons h) else ConnectWalletCard)
      else EmptyFragment)"

text \<open>
  The actions a view offers: the commands of its buttons that are not disabled.
\<close>

fun offeredActions :: "multisig_view \<Rightarrow> command list" where
  "offeredActions (TransactionCard bs) =
     map button_onClick (filter (\<lambda>b. \<not> button_disabled b) bs)"
| "offeredActions ReadOnlyCard = []"
| "offeredActions ConnectWalletCard = []"
| "offeredActions EmptyFragment = []"

subsection \<open>The chatbot widget (\<^verbatim>\<open>src/unnamed/part_004\<close>)\<close>

text \<open>
  The card the widget renders for a tool response (lines 458 to 517), from the
  \<^verbatim>\<open>txPreview\<close> and \<^verbatim>\<open>txPlan\<close> of the first artifact: whether the preview block
  is there, and whether the \<^verbatim>\<open>Sign Transaction\<close> button is.
\<close>

record ChatbotCard =
  card_preview :: bool
  card_signButton :: bool

text \<open>
  \<^verbatim>\<open>if (txPreview || txPlan)\<close> the card is rendered, else the part falls through to
  the plain text rendering (\<open>None\<close>); the button is under
  \<^verbatim>\<open>txPlan && txPlan.length > 0\<close>.
\<close>

definition chatbotToolCard :: "'p option \<Rightarrow> TxPlan option \<Rightarrow> ChatbotCard option" where
  "chatbotToolCard txPreview txPlan' =
     (if txPreview \<noteq> None \<or> txPlan' \<noteq> None
      then Some \<lparr> card_preview = (txPreview \<noteq> None),
                  card_signButton =
                    (case txPlan' of None \<Rightarrow> False | Some p \<Rightarrow> length p > 0) \<rparr>
      else None)"

section \<open>Amounts of wei as strings\<close>

text \<open>
  The agents write the \<^verbatim>\<open>value\<close> of a transaction as a string: a decimal literal
  (\<^verbatim>\<open>'0'\<close>) or a hexadecimal one (\<^verbatim>\<open>'0x0'\<close>). These are the strings that denote a
  non-negative integer number of wei.
\<close>

definition is_hex_digit :: "char \<Rightarrow> bool" where
  "is_hex_digit c =
     (let n = (of_char c :: nat)
      in (48 \<le> n \<and> n \<le> 57) \<or> (65 \<le> n \<and> n \<le> 70) \<or> (97 \<le> n \<and> n \<le> 102))"

definition nonneg_integer_literal :: "string \<Rightarrow> bool" where
  "nonneg_integer_literal v =
     ((v \<noteq> [] \<and> list_all is_digit v) \<or>
      (startsWith v ''0x'' \<and> drop 2 v \<noteq> [] \<and> list_all is_hex_digit (drop 2 v)))"

section \<open>Properties of the extraction utilities\<close>

text \<open>
  Each extractor returns a plan exactly for a response whose metadata carries
  \<^verbatim>\<open>txData\<close> and names one of the write operations it tests for, and the plan is
  then the single step built from that \<^verbatim>\<open>txData\<close>.
\<close>

lemma extractCounter_plan_eq:
  "(snd (extractCounterTransactionData r) = Some p) =
     (\<exists>m td. ar_metadata r = Some m \<and> cm_txData m = Some td \<and>
        (cm_operation m = ''increment'' \<or> cm_operation m = ''set'') \<and>
        p = [\<lparr> step_to = txData_to td, step_data = txData_data td,
               step_value = txData_value td, step_chainId = 421614 \<rparr>])"
proof (cases "ar_metadata r")
  case None
  then show ?thesis by (simp add: extractCounterTransactionData_def)
next
  case (Some m)
  show ?thesis
  proof (cases "cm_txData m")
    case None
    with Some show ?thesis by (simp add: extractCounterTransactionData_def)
  next
    case (Some td)
    with \<open>ar_metadata r = Some m\<close> show ?thesis
      by (simp add: extractCounterTransactionData_def eq_commute [of _ p])
  qed
qed

lemma extractMultisig_plan_eq:
  "(snd (extractMultisigTransactionData r) = Some p) =
     (\<exists>m td. ar_metadata r = Some m \<and> mm_txData m = Some td \<and>
        mm_operation m \<in> set multisig_write_operations \<and>
        p = [\<lparr> step_to = txData_to td, step_data = txData_data td,
               step_value = txData_value td, step_chainId = 421614 \<rparr>])"
proof (cases "ar_metadata r")
  case None
  then show ?thesis by (simp add: extractMultisigTransactionData_def)
next
  case (Some m)
  show ?thesis
  proof (cases "mm_txData m")
    case None
    with Some show ?thesis by (simp add: extractMultisigTransactionData_def)
  next
    case (Some td)
    with \<open>ar_metadata r = Some m\<close> show ?thesis
      by (simp add: extractMultisigTransactionData_def multisig_write_operations_def
          eq_commute [of _ p])
  qed
qed

lemma extractMultisig2_plan_eq:
  "(snd (extractMultisigTransactionData2 r) = Some p) =
     (\<exists>m td. ar_metadata r = Some m \<and> mm_txData m = Some td \<and>
        mm_operation m \<in> set multisig_write_operations2 \<and>
        p = [\<lparr> step_to = txData_to td, step_data = txData_data td,
               step_value = txData_value td, step_chainId = 421614 \<rparr>])"
proof (cases "ar_metadata r")
  case None
  then show ?thesis by (simp add: extractMultisigTransactionData2_def)
next
  case (Some m)
  show ?thesis
  proof (cases "mm_txData m")
    case None
    with Some show ?thesis by (simp add: extractMultisigTransactionData2_def)
  next
    case (Some td)
    with \<open>ar_metadata r = Some m\<close> show ?thesis
      by (simp add: extractMultisigTransactionData2_def multisig_write_operations2_def
          eq_commute [of _ p])
  qed
qed

lemma not_None_iff: "(x \<noteq> None) = (\<exists>p. x = Some p)"
  by (cases x) simp_all

text \<open>
  Claim C5. \<^verbatim>\<open>extractCounterTransactionData\<close> returns a non-null \<^verbatim>\<open>txPlan\<close> exactly
  when \<^verbatim>\<open>metadata.txData\<close> is present and the operation is \<^verbatim>\<open>increment\<close> or
  \<^verbatim>\<open>set\<close>; \<^verbatim>\<open>extractMultisigTransactionData\<close> (in either revision) returns a
  non-null \<^verbatim>\<open>txPlan\<close> exactly when \<^verbatim>\<open>metadata.txData\<close> is present and the operation
  is one of its write operations. In every other case, a read-only operation among
  them, \<^verbatim>\<open>txPlan\<close> is null. A non-null plan is the array of steps
  \<^verbatim>\<open>{ to, data, value, chainId }\<close> in execution order: the one step whose \<^verbatim>\<open>to\<close>,
  \<^verbatim>\<open>data\<close> and \<^verbatim>\<open>value\<close> are those of \<^verbatim>\<open>metadata.txData\<close> and whose
  \<^verbatim>\<open>chainId\<close> is 421614.
\<close>

theorem extract_txPlan_nonnull_iff_write:
  "((snd (extractCounterTransactionData r) \<noteq> None) =
      (\<exists>m td. ar_metadata r = Some m \<and> cm_txData m = Some td \<and>
         (cm_operation m = ''increment'' \<or> cm_operation m = ''set''))) \<and>
   ((snd (extractMultisigTransactionData r1) \<noteq> None) =
      (\<exists>m td. ar_metadata r1 = Some m \<and> mm_txData m = Some td \<and>
         mm_operation m \<in> set multisig_write_operations)) \<and>
   ((snd (extractMultisigTransactionData2 r2) \<noteq> None) =
      (\<exists>m td. ar_metadata r2 = Some m \<and> mm_txData m = Some td \<and>
         mm_operation m \<in> set multisig_write_operations2)) \<and>
   ((snd (extractCounterTransactionData r) = Some p) =
      (\<exists>m td. ar_metadata r = Some m \<and> cm_txData m = Some td \<and>
         (cm_operation m = ''increment'' \<or> cm_operation m = ''set'') \<and>
         p = [\<lparr> step_to = txData_to td, step_data = txData_data td,
                step_value = txData_value td, step_chainId = 421614 \<rparr>])) \<and>
   ((snd (extractMultisigTransactionData r1) = Some p1) =
      (\<exists>m td. ar_metadata r1 = Some m \<and> mm_txData m = Some td \<and>
         mm_operation m \<in> set multisig_write_operations \<and>
         p1 = [\<lparr> step_to = txData_to td, step_data = txData_data td,
                 step_value = txData_value td, step_chainId = 421614 \<rparr>])) \<and>
   ((snd (extractMultisigTransactionData2 r2) = Some p2) =
      (\<exists>m td. ar_metadata r2 = Some m \<and> mm_txData m = Some td \<and>
         mm_operation m \<in> set multisig_write_operations2 \<and>
         p2 = [\<lparr> step_to = txData_to td, step_data = txData_data td,
                 step_value = txData_value td, step_chainId = 421614 \<rparr>]))"
proof (intro conjI)
  show "(snd (extractCounterTransactionData r) \<noteq> None) =
     (\<exists>m td. ar_metadata r = Some m \<and> cm_txData m = Some td \<and>
        (cm_operation m = ''increment'' \<or> cm_operation m = ''set''))"
    unfolding not_None_iff extractCounter_plan_eq by blast
  show "(snd (extractMultisigTransactionData r1) \<noteq> None) =
     (\<exists>m td. ar_metadata r1 = Some m \<and> mm_txData m = Some td \<and>
        mm_operation m \<in> set multisig_write_operations)"
    unfolding not_None_iff extractMultisig_plan_eq by blast
  show "(snd (extractMultisigTransactionData2 r2) \<noteq> None) =
     (\<exists>m td. ar_metadata r2 = Some m \<and> mm_txData m = Some td \<and>
        mm_operation m \<in> set multisig_write_operations2)"
    unfolding not_None_iff extractMultisig2_plan_eq by blast
  show "(snd (extractCounterTransactionData r) = Some p) =
      (\<exists>m td. ar_metadata r = Some m \<and> cm_txData m = Some td \<and>
         (cm_operation m = ''increment'' \<or> cm_operation m = ''set'') \<and>
         p = [\<lparr> step_to = txData_to td, step_data = txData_data td,
                step_value = txData_value td, step_chainId = 421614 \<rparr>])"
    by (rule extractCounter_plan_eq)
  show "(snd (extractMultisigTransactionData r1) = Some p1) =
      (\<exists>m td. ar_metadata r1 = Some m \<and> mm_txData m = Some td \<and>
         mm_operation m \<in> set multisig_write_operations \<and>
         p1 = [\<lparr> step_to = txData_to td, step_data = txData_data td,
                 step_value = txData_value td, step_chainId = 421614 \<rparr>])"
    by (rule extractMultisig_plan_eq)
  show "(snd (extractMultisigTransactionData2 r2) = Some p2) =
      (\<exists>m td. ar_metadata r2 = Some m \<and> mm_txData m = Some td \<and>
         mm_operation m \<in> set multisig_write_operations2 \<and>
         p2 = [\<lparr> step_to = txData_to td, step_data = txData_data td,
                 step_value = txData_value td, step_chainId = 421614 \<rparr>])"
    by (rule extractMultisig2_plan_eq)
qed

text \<open>
  An \<^verbatim>\<open>increment\<close> response with \<^verbatim>\<open>txData\<close> yields the plan of the one step built
  from it; a \<^verbatim>\<open>read\<close> response yields none.
\<close>

theorem extract_txPlan_nonnull_iff_write_witness:
  "snd (extractCounterTransactionData
     \<lparr> ar_id = ''counter-1'', ar_state = completed, ar_parts = [''Ready''],
       ar_metadata = Some
         \<lparr> cm_operation = ''increment'', cm_contractAddress = ''0xC'',
           cm_currentValue = ''41'', cm_expectedNewValue = Some ''42'',
           cm_newValue = None, cm_userAddress = ''0xU'',
           cm_txData = Some \<lparr> txData_to = ''0xC'', txData_data = ''0xd09de08a'',
                               txData_value = ''0x0'' \<rparr> \<rparr> \<rparr>)
   = Some [\<lparr> step_to = ''0xC'', step_data = ''0xd09de08a'', step_value = ''0x0'',
             step_chainId = 421614 \<rparr>] \<and>
   snd (extractCounterTransactionData
     \<lparr> ar_id = ''counter-2'', ar_state = completed,
       ar_parts = [''The current counter value is: 41''],
       ar_metadata = Some
         \<lparr> cm_operation = ''read'', cm_contractAddress = ''0xC'',
           cm_currentValue = ''41'', cm_expectedNewValue = None,
           cm_newValue = None, cm_userAddress = ''0xU'',
           cm_txData = None \<rparr> \<rparr>)
   = None"
proof -
  let ?r = "\<lparr> ar_id = ''counter-1'', ar_state = completed, ar_parts = [''Ready''],
       ar_metadata = Some
         \<lparr> cm_operation = ''increment'', cm_contractAddress = ''0xC'',
           cm_currentValue = ''41'', cm_expectedNewValue = Some ''42'',
           cm_newValue = None, cm_userAddress = ''0xU'',
           cm_txData = Some \<lparr> txData_to = ''0xC'', txData_data = ''0xd09de08a'',
                               txData_value = ''0x0'' \<rparr> \<rparr> \<rparr>"
  let ?p = "[\<lparr> step_to = ''0xC'', step_data = ''0xd09de08a'', step_value = ''0x0'',
             step_chainId = 421614 \<rparr>]"
  let ?rr = "\<lparr> ar_id = ''counter-2'', ar_state = completed,
       ar_parts = [''The current counter value is: 41''],
       ar_metadata = Some
         \<lparr> cm_operation = ''read'', cm_contractAddress = ''0xC'',
           cm_currentValue = ''41'', cm_expectedNewValue = None,
           cm_newValue = None, cm_userAddress = ''0xU'',
           cm_txData = None \<rparr> \<rparr>"
  have plan_written: "snd (extractCounterTransactionData ?r) = Some ?p"
    using extract_txPlan_nonnull_iff_write [where r = ?r and p = ?p,
        THEN conjunct2, THEN conjunct2, THEN conjunct2, THEN conjunct1]
    by simp
  have plan_null: "snd (extractCounterTransactionData ?rr) = None"
    using extract_txPlan_nonnull_iff_write [where r = ?rr, THEN conjunct1]
    by simp
  from plan_written plan_null show ?thesis by (rule conjI)
qed

text \<open>
  Claim C8. Every non-null \<^verbatim>\<open>txPlan\<close> produced by \<^verbatim>\<open>extractCounterTransactionData\<close>
  or \<^verbatim>\<open>extractMultisigTransactionData\<close> (either revision) consists of exactly one
  step, whose \<^verbatim>\<open>chainId\<close> is 421614; so such a plan has no approval step:
  \<^verbatim>\<open>max(0, plan.length - 1)\<close>, the \<open>totalApprovals\<close> of the executor, is 0.
\<close>

theorem extracted_plan_single_step_421614:
  assumes "snd (extractCounterTransactionData r) = Some p \<or>
           snd (extractMultisigTransactionData r1) = Some p \<or>
           snd (extractMultisigTransactionData2 r2) = Some p"
  shows "length p = 1 \<and> step_chainId (hd p) = 421614 \<and>
         max 0 (int (length p) - 1) = 0"
proof -
  from assms obtain td :: TxData where
    "p = [\<lparr> step_to = txData_to td, step_data = txData_data td,
            step_value = txData_value td, step_chainId = 421614 \<rparr>]"
    unfolding extractCounter_plan_eq extractMultisig_plan_eq extractMultisig2_plan_eq
    by blast
  then show ?thesis by simp
qed

theorem extracted_plan_single_step_421614_witness:
  "snd (extractMultisigTransactionData
     \<lparr> ar_id = ''multisig-1'', ar_state = completed, ar_parts = [''Ready''],
       ar_metadata = Some
         \<lparr> mm_operation = ''confirmTransaction'', mm_multisigContractAddress = ''0xM'',
           mm_userAddress = ''0xU'', mm_swapDetails = None, mm_originalSwapTx = None,
           mm_owners = None, mm_numConfirmationsRequired = None, mm_txIndex = Some 3,
           mm_isOwner = None, mm_checkAddress = None,
           mm_txData = Some \<lparr> txData_to = ''0xM'', txData_data = ''0xc01a8c84'',
                               txData_value = ''0'' \<rparr> \<rparr> \<rparr>)
   = Some [\<lparr> step_to = ''0xM'', step_data = ''0xc01a8c84'', step_value = ''0'',
             step_chainId = 421614 \<rparr>] \<and>
   length [\<lparr> step_to = ''0xM'', step_data = ''0xc01a8c84'', step_value = ''0'',
             step_chainId = 421614 \<rparr>] = 1 \<and>
   step_chainId (hd [\<lparr> step_to = ''0xM'', step_data = ''0xc01a8c84'', step_value = ''0'',
             step_chainId = 421614 \<rparr>]) = 421614 \<and>
   max 0 (int (length [\<lparr> step_to = ''0xM'', step_data = ''0xc01a8c84'',
             step_value = ''0'', step_chainId = 421614 \<rparr>]) - 1) = 0"
proof -
  have h: "snd (extractMultisigTransactionData
     \<lparr> ar_id = ''multisig-1'', ar_state = completed, ar_parts = [''Ready''],
       ar_metadata = Some
         \<lparr> mm_operation = ''confirmTransaction'', mm_multisigContractAddress = ''0xM'',
           mm_userAddress = ''0xU'', mm_swapDetails = None, mm_originalSwapTx = None,
           mm_owners = None, mm_numConfirmationsRequired = None, mm_txIndex = Some 3,
           mm_isOwner = None, mm_checkAddress = None,
           mm_txData = Some \<lparr> txData_to = ''0xM'', txData_data = ''0xc01a8c84'',
                               txData_value = ''0'' \<rparr> \<rparr> \<rparr>)
   = Some [\<lparr> step_to = ''0xM'', step_data = ''0xc01a8c84'', step_value = ''0'',
             step_chainId = 421614 \<rparr>]"
    by (simp add: extractMultisigTransactionData_def)
  from extracted_plan_single_step_421614 [OF disjI2, OF disjI1, OF h] h
  show ?thesis by simp
qed

text \<open>
  Claim C9. For every agent response whose \<^verbatim>\<open>metadata\<close> field is absent,
  \<^verbatim>\<open>extractCounterTransactionData\<close> and \<^verbatim>\<open>extractMultisigTransactionData\<close> (either
  revision) return \<^verbatim>\<open>{ txPreview: null, txPlan: null }\<close>.
\<close>

theorem extract_without_metadata_null:
  "(ar_metadata r = None \<longrightarrow> extractCounterTransactionData r = (None, None)) \<and>
   (ar_metadata r1 = None \<longrightarrow> extractMultisigTransactionData r1 = (None, None)) \<and>
   (ar_metadata r2 = None \<longrightarrow> extractMultisigTransactionData2 r2 = (None, None))"
  by (simp add: extractCounterTransactionData_def extractMultisigTransactionData_def
      extractMultisigTransactionData2_def)

theorem extract_without_metadata_null_witness:
  "ar_metadata \<lparr> ar_id = ''counter-error-2'', ar_state = failed,
                 ar_parts = [''Error: Failed to read counter value: timeout''],
                 ar_metadata = (None :: CounterMetadata option) \<rparr> = None \<and>
   extractCounterTransactionData
     \<lparr> ar_id = ''counter-error-2'', ar_state = failed,
       ar_parts = [''Error: Failed to read counter value: timeout''],
       ar_metadata = None \<rparr> = (None, None)"
  using extract_without_metadata_null
    [of "\<lparr> ar_id = ''counter-error-2'', ar_state = failed,
           ar_parts = [''Error: Failed to read counter value: timeout''],
           ar_metadata = None \<rparr>"]
  by simp

section \<open>Properties of the counter agent\<close>

text \<open>
  The \<^verbatim>\<open>catch\<close> block of a handler never returns: it throws a fresh \<^verbatim>\<open>Error\<close>
  when the caught value has a text, and whatever the conversion throws when it has
  none. The parser and the \<^verbatim>\<open>switch\<close> throw fresh \<^verbatim>\<open>Error\<close>s only.
\<close>

lemma rethrow_Inl: "\<exists>t. rethrow prefix e = Inl t"
  by (cases "error_text e") (simp_all add: rethrow_def)









lemma handleIncrement_Inr:
  assumes "handleIncrement ext taskId userAddress = Inr t"
  shows "ar_state t = completed \<and>
         (\<exists>m d. ar_metadata t = Some m \<and> cm_operation m = ''increment'' \<and>
            cm_txData m = Some \<lparr> txData_to = contractAddress ext, txData_data = d,
                                  txData_value = ''0x0'' \<rparr>)"
proof (cases "readContract ext")
  case (Inl e)
  with assms rethrow_Inl [of "''Failed to prepare increment transaction: ''" e]
  show ?thesis by (auto simp: handleIncrement_def)
next
  case v: (Inr v)
  show ?thesis
  proof (cases "encodeIncrement ext")
    case (Inl e)
    with assms v rethrow_Inl [of "''Failed to prepare increment transaction: ''" e]
    show ?thesis by (auto simp: handleIncrement_def)
  next
    case (Inr d)
    with assms v show ?thesis by (auto simp add: handleIncrement_def)
  qed
qed


lemma handleSet_Inr:
  assumes "handleSet ext taskId userAddress n = Inr t"
  shows "ar_state t = completed \<and>
         (\<exists>m d. ar_metadata t = Some m \<and> cm_operation m = ''set'' \<and>
            cm_txData m = Some \<lparr> txData_to = contractAddress ext, txData_data = d,
                                  txData_value = ''0x0'' \<rparr>)"
proof (cases "readContract ext")
  case (Inl e)
  with assms rethrow_Inl [of "''Failed to prepare set transaction: ''" e]
  show ?thesis by (auto simp: handleSet_def)
next
  case v: (Inr v)
  show ?thesis
  proof (cases "case toBigInt n of Inl e \<Rightarrow> Inl e | Inr v \<Rightarrow> encodeSetNumber ext v")
    case (Inl e)
    with assms v rethrow_Inl [of "''Failed to prepare set transaction: ''" e]
    show ?thesis by (auto simp: handleSet_def)
  next
    case (Inr d)
    with assms v show ?thesis by (auto simp add: handleSet_def)
  qed
qed












section \<open>The value of a generated step\<close>

lemma nonneg_0x0: "nonneg_integer_literal ''0x0''"
  by (simp add: nonneg_integer_literal_def is_hex_digit_def)

text \<open>
  Claim C6, as stated: the \<^verbatim>\<open>value\<close> of every step generated by
  \<^verbatim>\<open>extractCounterTransactionData\<close> is a non-negative integer. It fails: the extractor
  copies the string \<^verbatim>\<open>metadata.txData.value\<close> and checks nothing, so the response
  below, whose \<^verbatim>\<open>txData.value\<close> is \<^verbatim>\<open>'-1'\<close>, yields a step of value \<^verbatim>\<open>'-1'\<close>.
\<close>

theorem step_value_not_always_integer:
  "snd (extractCounterTransactionData
     \<lparr> ar_id = ''t'', ar_state = completed, ar_parts = [],
       ar_metadata = Some
         \<lparr> cm_operation = ''increment'', cm_contractAddress = ''0xC'', cm_currentValue = ''41'',
           cm_expectedNewValue = None, cm_newValue = None, cm_userAddress = ''0xU'',
           cm_txData = Some \<lparr> txData_to = ''0xC'', txData_data = ''0x'',
                               txData_value = ''-1'' \<rparr> \<rparr> \<rparr>)
   = Some [\<lparr> step_to = ''0xC'', step_data = ''0x'', step_value = ''-1'', step_chainId = 421614 \<rparr>]
   \<and> \<not> nonneg_integer_literal ''-1''"
  by (simp add: extractCounterTransactionData_def nonneg_integer_literal_def is_digit_def)

text \<open>
  Claim C6, amended. The \<^verbatim>\<open>value\<close> of every step generated by
  \<^verbatim>\<open>extractCounterTransactionData\<close> and \<^verbatim>\<open>extractMultisigTransactionData\<close> (either
  revision) is the string \<^verbatim>\<open>metadata.txData.value\<close> of the response, unchanged; and
  for the responses that \<^verbatim>\<open>handleIncrement\<close> and \<^verbatim>\<open>handleSet\<close> of the counter agent
  build, that string is \<^verbatim>\<open>'0x0'\<close>, which denotes the non-negative integer 0.
\<close>

theorem step_value_copied_from_txData:
  "(snd (extractCounterTransactionData r) = Some p \<longrightarrow>
      (\<exists>m td. ar_metadata r = Some m \<and> cm_txData m = Some td \<and>
         (\<forall>st \<in> set p. step_value st = txData_value td))) \<and>
   (snd (extractMultisigTransactionData r1) = Some p1 \<longrightarrow>
      (\<exists>m td. ar_metadata r1 = Some m \<and> mm_txData m = Some td \<and>
         (\<forall>st \<in> set p1. step_value st = txData_value td))) \<and>
   (snd (extractMultisigTransactionData2 r2) = Some p2 \<longrightarrow>
      (\<exists>m td. ar_metadata r2 = Some m \<and> mm_txData m = Some td \<and>
         (\<forall>st \<in> set p2. step_value st = txData_value td))) \<and>
   (handleIncrement ext taskId userAddress = Inr t \<longrightarrow>
      (\<exists>st. snd (extractCounterTransactionData t) = Some [st] \<and>
         step_value st = ''0x0'' \<and> nonneg_integer_literal (step_value st))) \<and>
   (handleSet ext taskId userAddress n = Inr t' \<longrightarrow>
      (\<exists>st. snd (extractCounterTransactionData t') = Some [st] \<and>
         step_value st = ''0x0'' \<and> nonneg_integer_literal (step_value st)))"
proof (intro conjI impI)
  assume "snd (extractCounterTransactionData r) = Some p"
  then show "\<exists>m td. ar_metadata r = Some m \<and> cm_txData m = Some td \<and>
         (\<forall>st \<in> set p. step_value st = txData_value td)"
    unfolding extractCounter_plan_eq by auto
next
  assume "snd (extractMultisigTransactionData r1) = Some p1"
  then show "\<exists>m td. ar_metadata r1 = Some m \<and> mm_txData m = Some td \<and>
         (\<forall>st \<in> set p1. step_value st = txData_value td)"
    unfolding extractMultisig_plan_eq by auto
next
  assume "snd (extractMultisigTransactionData2 r2) = Some p2"
  then show "\<exists>m td. ar_metadata r2 = Some m \<and> mm_txData m = Some td \<and>
         (\<forall>st \<in> set p2. step_value st = txData_value td)"
    unfolding extractMultisig2_plan_eq by auto
next
  assume "handleIncrement ext taskId userAddress = Inr t"
  from handleIncrement_Inr [OF this] obtain m d where
    "ar_metadata t = Some m" "cm_operation m = ''increment''"
    "cm_txData m = Some \<lparr> txData_to = contractAddress ext, txData_data = d,
                          txData_value = ''0x0'' \<rparr>"
    by blast
  then have "snd (extractCounterTransactionData t) =
      Some [\<lparr> step_to = contractAddress ext, step_data = d, step_value = ''0x0'',
              step_chainId = 421614 \<rparr>]"
    unfolding extractCounter_plan_eq by simp
  then show "\<exists>st. snd (extractCounterTransactionData t) = Some [st] \<and>
         step_value st = ''0x0'' \<and> nonneg_integer_literal (step_value st)"
    using nonneg_0x0 by simp
next
  assume "handleSet ext taskId userAddress n = Inr t'"
  from handleSet_Inr [OF this] obtain m d where
    "ar_metadata t' = Some m" "cm_operation m = ''set''"
    "cm_txData m = Some \<lparr> txData_to = contractAddress ext, txData_data = d,
                          txData_value = ''0x0'' \<rparr>"
    by blast
  then have "snd (extractCounterTransactionData t') =
      Some [\<lparr> step_to = contractAddress ext, step_data = d, step_value = ''0x0'',
              step_chainId = 421614 \<rparr>]"
    unfolding extractCounter_plan_eq by simp
  then show "\<exists>st. snd (extractCounterTransactionData t') = Some [st] \<and>
         step_value st = ''0x0'' \<and> nonneg_integer_literal (step_value st)"
    using nonneg_0x0 by simp
qed

theorem step_value_copied_from_txData_witness:
  "\<exists>t. handleIncrement
          \<lparr> contractAddress = ''0xC'', readContract = Inr 41,
            encodeIncrement = Inr ''0xd09de08a'',
            encodeSetNumber = (\<lambda>n. Inr ''0x3fb5c1cb''), now = 1, now_on_error = 2,
            random_suffix = ''abc'', number_toString = bigint_toString \<rparr>
          ''counter-1-abc'' ''0xU'' = Inr t \<and>
        (\<exists>st. snd (extractCounterTransactionData t) = Some [st] \<and>
           step_value st = ''0x0'' \<and> nonneg_integer_literal (step_value st))"
proof -
  let ?ext = "\<lparr> contractAddress = ''0xC'', readContract = Inr 41,
            encodeIncrement = Inr ''0xd09de08a'',
            encodeSetNumber = (\<lambda>n. Inr ''0x3fb5c1cb''), now = 1, now_on_error = 2,
            random_suffix = ''abc'', number_toString = bigint_toString \<rparr>"
  obtain t where h: "handleIncrement ?ext ''counter-1-abc'' ''0xU'' = Inr t"
    by (simp add: handleIncrement_def)
  from step_value_copied_from_txData [where ext = ?ext and taskId = "''counter-1-abc''"
      and userAddress = "''0xU''" and t = t] h
  show ?thesis by blast
qed

section \<open>Properties of the rendered surfaces\<close>

text \<open>
  Claim C7. A plan with zero steps is never submitted. In the chatbot renderer the
  \<^verbatim>\<open>Sign Transaction\<close> control exists only when \<^verbatim>\<open>txPlan.length > 0\<close>.
  \<^verbatim>\<open>MultisigTrade\<close> renders no button for a \<^verbatim>\<open>null\<close> plan, and whatever the hook
  returns, it offers \<^verbatim>\<open>executeMain\<close> only under the hook's \<^verbatim>\<open>canExecute\<close> and
  \<^verbatim>\<open>approveNext\<close> only under its \<^verbatim>\<open>canApprove\<close> and a positive
  \<^verbatim>\<open>totalApprovals\<close> (a disabled button cannot be invoked and does not count as
  offered). With the hook as the specification has it, the plan \<^verbatim>\<open>[]\<close> is not
  present, so for it the component offers nothing, and the commands of the executor
  themselves do nothing: no call reaches the wallet.
\<close>

theorem empty_plan_offers_no_signing:
  "(chatbotToolCard txPreview plan = Some c \<and> card_signButton c \<longrightarrow>
      (\<exists>p. plan = Some p \<and> 0 < length p)) \<and>
   offeredActions (MultisigTrade txPreview' None connected h) = [] \<and>
   (ExecuteMain \<in> set (offeredActions (MultisigTrade txPreview' plan' connected h)) \<longrightarrow>
      h_canExecute h) \<and>
   (ApproveNext \<in> set (offeredActions (MultisigTrade txPreview' plan' connected h)) \<longrightarrow>
      h_canApprove h \<and> 0 < h_totalApprovals h) \<and>
   offeredActions
     (MultisigTrade txPreview' (Some []) connected
        (useTransactionExecutor
           \<lparr> txPlan = Some [], isConnected = connected, address = addr,
             currentChainId = chain \<rparr> s)) = [] \<and>
   (txPlan inp = Some [] \<or> txPlan inp = None \<longrightarrow>
      approveNext inp w s = no_op \<and> executeMain inp w s = no_op)"
proof -
  have chatbot: "chatbotToolCard txPreview plan = Some c \<and> card_signButton c \<longrightarrow>
      (\<exists>p. plan = Some p \<and> 0 < length p)"
    by (cases plan) (auto simp: chatbotToolCard_def split: if_splits)
  have null: "offeredActions (MultisigTrade txPreview' None connected h) = []"
    by (simp add: MultisigTrade_def)
  have exec: "ExecuteMain \<in> set (offeredActions (MultisigTrade txPreview' plan' connected h))
      \<longrightarrow> h_canExecute h"
    by (auto simp: MultisigTrade_def actionButtons_def Let_def split: if_splits)
  have appr: "ApproveNext \<in> set (offeredActions (MultisigTrade txPreview' plan' connected h))
      \<longrightarrow> h_canApprove h \<and> 0 < h_totalApprovals h"
    by (auto simp: MultisigTrade_def actionButtons_def Let_def split: if_splits)
  have empty: "offeredActions
     (MultisigTrade txPreview' (Some []) connected
        (useTransactionExecutor
           \<lparr> txPlan = Some [], isConnected = connected, address = addr,
             currentChainId = chain \<rparr> s)) = []"
    by (simp add: MultisigTrade_def useTransactionExecutor_def actionButtons_def
        totalApprovals_def canExecute_def planPresent_def Let_def)
  have executor: "txPlan inp = Some [] \<or> txPlan inp = None \<longrightarrow>
      approveNext inp w s = no_op \<and> executeMain inp w s = no_op"
  proof
    assume "txPlan inp = Some [] \<or> txPlan inp = None"
    then have "\<not> planPresent inp" by (auto simp: planPresent_def)
    then show "approveNext inp w s = no_op \<and> executeMain inp w s = no_op"
      by (simp add: approveNext_def executeMain_def canApprove_def canExecute_def)
  qed
  from chatbot null exec appr empty executor show ?thesis by blast
qed

text \<open>
  The witness: a one-step plan gets the chatbot's button; for the empty plan
  \<^verbatim>\<open>MultisigTrade\<close>, connected and with a preview, renders exactly one button, and
  that button is disabled.
\<close>

theorem empty_plan_offers_no_signing_witness:
  "chatbotToolCard (Some ()) (Some [\<lparr> step_to = ''0xA'', step_data = ''0x095ea7b3'', step_value = ''0'',
                    step_chainId = 421614 \<rparr>])
     = Some \<lparr> card_preview = True, card_signButton = True \<rparr> \<and>
   (\<exists>p. Some [\<lparr> step_to = ''0xA'', step_data = ''0x095ea7b3'', step_value = ''0'',
                    step_chainId = 421614 \<rparr>] = Some p \<and> 0 < length p) \<and>
   MultisigTrade (Some ()) (Some []) True
     (useTransactionExecutor
        \<lparr> txPlan = Some [], isConnected = True, address = Some ''0xU'',
          currentChainId = Some 421614 \<rparr>
        (initial (Some [])))
     = TransactionCard [\<lparr> button_label = ''Sign Transaction'', button_disabled = True,
                          button_onClick = ExecuteMain \<rparr>]"
proof -
  let ?plan = "Some [\<lparr> step_to = ''0xA'', step_data = ''0x095ea7b3'', step_value = ''0'',
                    step_chainId = 421614 \<rparr>]"
  let ?c = "\<lparr> card_preview = True, card_signButton = True \<rparr>"
  have h: "chatbotToolCard (Some ()) ?plan = Some ?c \<and> card_signButton ?c"
    by (simp add: chatbotToolCard_def)
  have m: "MultisigTrade (Some ()) (Some []) True
     (useTransactionExecutor
        \<lparr> txPlan = Some [], isConnected = True, address = Some ''0xU'',
          currentChainId = Some 421614 \<rparr>
        (initial (Some [])))
     = TransactionCard [\<lparr> button_label = ''Sign Transaction'', button_disabled = True,
                          button_onClick = ExecuteMain \<rparr>]"
    by (simp add: MultisigTrade_def useTransactionExecutor_def actionButtons_def
        totalApprovals_def canExecute_def planPresent_def isTxPending_def initial_def
        Let_def)
  from empty_plan_offers_no_signing
         [where txPreview = "Some ()" and plan = ?plan and c = ?c, THEN conjunct1] h m
  show ?thesis by blast
qed

section \<open>Properties of the executor\<close>

text \<open>
  The invariants of section 3 hold of every state the instance rests in, and their
  weaker form of every state it passes through.
\<close>

lemma no_pending_update:
  "\<not> list_ex (\<lambda>st. st = Pending) l \<Longrightarrow> v \<noteq> Pending \<Longrightarrow>
   \<not> list_ex (\<lambda>st. st = Pending) (l[i := v])"
  by (induction l arbitrary: i) (auto split: nat.splits)







lemma run_step_final:
  "final s (run_step inp w st set_status advance s) = set_status (Error chain_switch_failed) s \<or>
   final s (run_step inp w st set_status advance s) =
     last (set_status Success (set_status Pending s)
           # advance (set_status Success (set_status Pending s))) \<or>
   (\<exists>r. final s (run_step inp w st set_status advance s) =
          set_status (Error r) (set_status Pending s))"
proof (cases "currentChainId inp \<noteq> Some (step_chainId st) \<and> \<not> switchChain w (step_chainId st)")
  case True
  then show ?thesis by (simp add: run_step_def final_def)
next
  case False
  show ?thesis
  proof (cases "sendTransaction w st")
    case Confirmed
    with False show ?thesis by (auto simp: run_step_def Let_def final_def)
  next
    case (Rejected r)
    with False show ?thesis by (auto simp: run_step_def Let_def final_def)
  qed
qed

lemma set_approval_twice:
  "set_approval_status i v (set_approval_status i u s) = set_approval_status i v s"
  by (simp add: set_approval_status_def)

lemma set_main_twice:
  "set_main_status v (set_main_status u s) = set_main_status v s"
  by (simp add: set_main_status_def)

lemma rest_set_approval:
  assumes "restInvariant plan s" "v \<noteq> Pending"
  shows "restInvariant plan (set_approval_status (approvalIndex s) v s)"
  using assms
  by (simp add: restInvariant_def set_approval_status_def anyPending_def no_pending_update)

lemma rest_advance:
  assumes "restInvariant plan s" "approvalIndex s < totalApprovals plan"
  shows "restInvariant plan
           ((set_approval_status (approvalIndex s) Success s)
              \<lparr> approvalIndex := approvalIndex s + 1 \<rparr>)"
  using assms
  by (simp add: restInvariant_def set_approval_status_def anyPending_def no_pending_update
      take_Suc_conv_app_nth)



lemma rest_set_main:
  assumes "restInvariant plan s" "v \<noteq> Pending"
  shows "restInvariant plan (set_main_status v s)"
  using assms by (simp add: restInvariant_def set_main_status_def anyPending_def)




lemma approveNext_rest:
  assumes "restInvariant plan s" "txPlan inp = plan"
  shows "restInvariant plan (final s (approveNext inp w s))"
proof (cases "canApprove inp s")
  case False
  with assms show ?thesis by (simp add: approveNext_def no_op_def final_def)
next
  case True
  show ?thesis
  proof (cases "approvalStep inp (approvalIndex s)")
    case None
    with True assms show ?thesis by (simp add: approveNext_def no_op_def final_def)
  next
    case (Some st)
    then have lt: "approvalIndex s < totalApprovals plan"
      using assms(2) by (auto simp: approvalStep_def split: option.splits if_splits)
    from Some True
    have eq: "approveNext inp w s =
                run_step inp w st (set_approval_status (approvalIndex s))
                  increment_approvalIndex s"
      by (simp add: approveNext_def)
    from run_step_final [of s inp w st "set_approval_status (approvalIndex s)"
                            increment_approvalIndex]
    consider (failed) r where
        "final s (approveNext inp w s) = set_approval_status (approvalIndex s) (Error r) s"
      | (advanced) "final s (approveNext inp w s) =
                      (set_approval_status (approvalIndex s) Success s)
                        \<lparr> approvalIndex := approvalIndex s + 1 \<rparr>"
      unfolding eq
      by (auto simp: set_approval_twice increment_approvalIndex_def
          set_approval_status_def)
    then show ?thesis
    proof cases
      case failed
      with rest_set_approval [OF assms(1), of "Error r"] show ?thesis by simp
    next
      case advanced
      with rest_advance [OF assms(1) lt] show ?thesis by simp
    qed
  qed
qed


lemma executeMain_rest:
  assumes "restInvariant plan s" "txPlan inp = plan"
  shows "restInvariant plan (final s (executeMain inp w s))"
proof (cases "canExecute inp s")
  case False
  with assms show ?thesis by (simp add: executeMain_def no_op_def final_def)
next
  case True
  show ?thesis
  proof (cases "mainStep inp")
    case None
    with True assms show ?thesis by (simp add: executeMain_def no_op_def final_def)
  next
    case (Some st)
    with True
    have eq: "executeMain inp w s = run_step inp w st set_main_status (\<lambda>s'. []) s"
      by (simp add: executeMain_def)
    from run_step_final [of s inp w st set_main_status "\<lambda>s'. []"]
    obtain v where "final s (executeMain inp w s) = set_main_status v s" "v \<noteq> Pending"
      unfolding eq by (auto simp: set_main_twice)
    with rest_set_main [OF assms(1)] show ?thesis by simp
  qed
qed

lemma initial_rest: "restInvariant plan (initial plan)"
  by (simp add: restInvariant_def initial_def anyPending_def list_ex_iff list_all_iff)

lemma reachable_rest: "reachable plan s \<Longrightarrow> restInvariant plan s"
proof (induction rule: reachable.induct)
  case attach
  show ?case by (rule initial_rest)
next
  case (approve s inp w)
  then show ?case by (simp add: approveNext_rest)
next
  case (execute s inp w)
  then show ?case by (simp add: executeMain_rest)
qed








text \<open>
  Claim C3. For an invocation of \<^verbatim>\<open>approveNext()\<close> or \<^verbatim>\<open>executeMain()\<close> that passes
  its guard, with the current chain different from the chain of its step: the calls
  on the wallet are \<^verbatim>\<open>switchChain\<close> and then \<^verbatim>\<open>sendTransaction\<close> when the switch
  resolves; when it rejects, \<^verbatim>\<open>switchChain\<close> is the only call, so
  \<^verbatim>\<open>sendTransaction\<close> is never called, and the invocation makes one mutation,
  setting the status of the step to error(chain-switch-failed). Read back after
  \<^verbatim>\<open>executeMain()\<close>, \<open>mainStatus\<close> is that error; read back after
  \<^verbatim>\<open>approveNext()\<close> from a state the instance can rest in, the status of the step at
  \<open>approvalIndex\<close> is that error, and \<^verbatim>\<open>approvalError\<close> is its reason.
\<close>

theorem chain_switch_precedes_send:
  "(canApprove inp s \<and> approvalStep inp (approvalIndex s) = Some st \<and>
    currentChainId inp \<noteq> Some (step_chainId st) \<longrightarrow>
      (if switchChain w (step_chainId st)
       then calls (approveNext inp w s) =
              [SwitchChain (step_chainId st), SendTransaction st]
       else calls (approveNext inp w s) = [SwitchChain (step_chainId st)] \<and>
            states (approveNext inp w s) =
              [set_approval_status (approvalIndex s) (Error chain_switch_failed) s] \<and>
            final s (approveNext inp w s) =
              set_approval_status (approvalIndex s) (Error chain_switch_failed) s)) \<and>
   (canExecute inp s \<and> mainStep inp = Some st' \<and>
    currentChainId inp \<noteq> Some (step_chainId st') \<longrightarrow>
      (if switchChain w (step_chainId st')
       then calls (executeMain inp w s) =
              [SwitchChain (step_chainId st'), SendTransaction st']
       else calls (executeMain inp w s) = [SwitchChain (step_chainId st')] \<and>
            states (executeMain inp w s) =
              [set_main_status (Error chain_switch_failed) s] \<and>
            mainStatus (final s (executeMain inp w s)) = Error chain_switch_failed \<and>
            txError (final s (executeMain inp w s)) = Some chain_switch_failed)) \<and>
   (reachable plan s \<and> txPlan inp = plan \<and>
    canApprove inp s \<and> approvalStep inp (approvalIndex s) = Some st \<and>
    currentChainId inp \<noteq> Some (step_chainId st) \<and> \<not> switchChain w (step_chainId st) \<longrightarrow>
      approvalIndex (final s (approveNext inp w s)) = approvalIndex s \<and>
      approvalIndex s < length (stepStatus (final s (approveNext inp w s))) \<and>
      stepStatus (final s (approveNext inp w s)) ! approvalIndex s =
        Error chain_switch_failed \<and>
      approvalError (final s (approveNext inp w s)) = Some chain_switch_failed \<and>
      SendTransaction st \<notin> set (calls (approveNext inp w s)))"
proof -
  have approve: "canApprove inp s \<and> approvalStep inp (approvalIndex s) = Some st \<and>
    currentChainId inp \<noteq> Some (step_chainId st) \<longrightarrow>
      (if switchChain w (step_chainId st)
       then calls (approveNext inp w s) =
              [SwitchChain (step_chainId st), SendTransaction st]
       else calls (approveNext inp w s) = [SwitchChain (step_chainId st)] \<and>
            states (approveNext inp w s) =
              [set_approval_status (approvalIndex s) (Error chain_switch_failed) s] \<and>
            final s (approveNext inp w s) =
              set_approval_status (approvalIndex s) (Error chain_switch_failed) s)"
    by (simp add: approveNext_def run_step_def Let_def final_def)
  have execute: "canExecute inp s \<and> mainStep inp = Some st' \<and>
    currentChainId inp \<noteq> Some (step_chainId st') \<longrightarrow>
      (if switchChain w (step_chainId st')
       then calls (executeMain inp w s) =
              [SwitchChain (step_chainId st'), SendTransaction st']
       else calls (executeMain inp w s) = [SwitchChain (step_chainId st')] \<and>
            states (executeMain inp w s) =
              [set_main_status (Error chain_switch_failed) s] \<and>
            mainStatus (final s (executeMain inp w s)) = Error chain_switch_failed \<and>
            txError (final s (executeMain inp w s)) = Some chain_switch_failed)"
    by (simp add: executeMain_def run_step_def Let_def final_def set_main_status_def
        txError_def)
  have read_back: "reachable plan s \<and> txPlan inp = plan \<and>
    canApprove inp s \<and> approvalStep inp (approvalIndex s) = Some st \<and>
    currentChainId inp \<noteq> Some (step_chainId st) \<and> \<not> switchChain w (step_chainId st) \<longrightarrow>
      approvalIndex (final s (approveNext inp w s)) = approvalIndex s \<and>
      approvalIndex s < length (stepStatus (final s (approveNext inp w s))) \<and>
      stepStatus (final s (approveNext inp w s)) ! approvalIndex s =
        Error chain_switch_failed \<and>
      approvalError (final s (approveNext inp w s)) = Some chain_switch_failed \<and>
      SendTransaction st \<notin> set (calls (approveNext inp w s))"
  proof
    assume h: "reachable plan s \<and> txPlan inp = plan \<and>
      canApprove inp s \<and> approvalStep inp (approvalIndex s) = Some st \<and>
      currentChainId inp \<noteq> Some (step_chainId st) \<and> \<not> switchChain w (step_chainId st)"
    then have "restInvariant plan s" by (simp add: reachable_rest)
    then have len: "length (stepStatus s) = totalApprovals plan"
      by (simp add: restInvariant_def)
    from h have "approvalIndex s < totalApprovals plan"
      by (auto simp: approvalStep_def split: option.splits if_splits)
    with len have lt: "approvalIndex s < length (stepStatus s)" by simp
    from h approve
    have c: "calls (approveNext inp w s) = [SwitchChain (step_chainId st)]"
      and f: "final s (approveNext inp w s) =
              set_approval_status (approvalIndex s) (Error chain_switch_failed) s"
      by simp_all
    from lt have "approvalError
        (set_approval_status (approvalIndex s) (Error chain_switch_failed) s)
        = Some chain_switch_failed"
      by (simp add: approvalError_def currentApprovalStatus_def set_approval_status_def)
    with lt c f
    show "approvalIndex (final s (approveNext inp w s)) = approvalIndex s \<and>
      approvalIndex s < length (stepStatus (final s (approveNext inp w s))) \<and>
      stepStatus (final s (approveNext inp w s)) ! approvalIndex s =
        Error chain_switch_failed \<and>
      approvalError (final s (approveNext inp w s)) = Some chain_switch_failed \<and>
      SendTransaction st \<notin> set (calls (approveNext inp w s))"
      by (simp add: set_approval_status_def)
  qed
  from approve execute read_back show ?thesis by (intro conjI)
qed

text \<open>
  The witness: a plan of one approval and the main step, the wallet on another chain,
  a switch that rejects; \<^verbatim>\<open>approveNext()\<close> from the initial state and
  \<^verbatim>\<open>executeMain()\<close> once the approval has succeeded.
\<close>

theorem chain_switch_precedes_send_witness:
  "reachable (Some [\<lparr> step_to = ''0xA'', step_data = ''0x095ea7b3'', step_value = ''0'',
            step_chainId = 421614 \<rparr>,
          \<lparr> step_to = ''0xM'', step_data = ''0xc6427474'', step_value = ''0'',
            step_chainId = 421614 \<rparr>])
     \<lparr> approvalIndex = 0, stepStatus = [Idle], mainStatus = Idle \<rparr> \<and>
   calls (approveNext
     \<lparr> txPlan = Some [\<lparr> step_to = ''0xA'', step_data = ''0x095ea7b3'', step_value = ''0'',
            step_chainId = 421614 \<rparr>,
          \<lparr> step_to = ''0xM'', step_data = ''0xc6427474'', step_value = ''0'',
            step_chainId = 421614 \<rparr>],
       isConnected = True, address = Some ''0xU'', currentChainId = Some 1 \<rparr>
     \<lparr> switchChain = (\<lambda>c. False), sendTransaction = (\<lambda>st. Confirmed) \<rparr>
     \<lparr> approvalIndex = 0, stepStatus = [Idle], mainStatus = Idle \<rparr>)
     = [SwitchChain 421614] \<and>
   states (approveNext
     \<lparr> txPlan = Some [\<lparr> step_to = ''0xA'', step_data = ''0x095ea7b3'', step_value = ''0'',
            step_chainId = 421614 \<rparr>,
          \<lparr> step_to = ''0xM'', step_data = ''0xc6427474'', step_value = ''0'',
            step_chainId = 421614 \<rparr>],
       isConnected = True, address = Some ''0xU'', currentChainId = Some 1 \<rparr>
     \<lparr> switchChain = (\<lambda>c. False), sendTransaction = (\<lambda>st. Confirmed) \<rparr>
     \<lparr> approvalIndex = 0, stepStatus = [Idle], mainStatus = Idle \<rparr>)
     = [\<lparr> approvalIndex = 0, stepStatus = [Error chain_switch_failed], mainStatus = Idle \<rparr>] \<and>
   approvalError (final \<lparr> approvalIndex = 0, stepStatus = [Idle], mainStatus = Idle \<rparr>
     (approveNext
     \<lparr> txPlan = Some [\<lparr> step_to = ''0xA'', step_data = ''0x095ea7b3'', step_value = ''0'',
            step_chainId = 421614 \<rparr>,
          \<lparr> step_to = ''0xM'', step_data = ''0xc6427474'', step_value = ''0'',
            step_chainId = 421614 \<rparr>],
       isConnected = True, address = Some ''0xU'', currentChainId = Some 1 \<rparr>
     \<lparr> switchChain = (\<lambda>c. False), sendTransaction = (\<lambda>st. Confirmed) \<rparr>
     \<lparr> approvalIndex = 0, stepStatus = [Idle], mainStatus = Idle \<rparr>))
     = Some chain_switch_failed \<and>
   calls (executeMain
     \<lparr> txPlan = Some [\<lparr> step_to = ''0xA'', step_data = ''0x095ea7b3'', step_value = ''0'',
            step_chainId = 421614 \<rparr>,
          \<lparr> step_to = ''0xM'', step_data = ''0xc6427474'', step_value = ''0'',
            step_chainId = 421614 \<rparr>],
       isConnected = True, address = Some ''0xU'', currentChainId = Some 1 \<rparr>
     \<lparr> switchChain = (\<lambda>c. False), sendTransaction = (\<lambda>st. Confirmed) \<rparr>
     \<lparr> approvalIndex = 1, stepStatus = [Success], mainStatus = Idle \<rparr>)
     = [SwitchChain 421614] \<and>
   states (executeMain
     \<lparr> txPlan = Some [\<lparr> step_to = ''0xA'', step_data = ''0x095ea7b3'', step_value = ''0'',
            step_chainId = 421614 \<rparr>,
          \<lparr> step_to = ''0xM'', step_data = ''0xc6427474'', step_value = ''0'',
            step_chainId = 421614 \<rparr>],
       isConnected = True, address = Some ''0xU'', currentChainId = Some 1 \<rparr>
     \<lparr> switchChain = (\<lambda>c. False), sendTransaction = (\<lambda>st. Confirmed) \<rparr>
     \<lparr> approvalIndex = 1, stepStatus = [Success], mainStatus = Idle \<rparr>)
     = [\<lparr> approvalIndex = 1, stepStatus = [Success],
          mainStatus = Error chain_switch_failed \<rparr>]"
proof -
  let ?a = "\<lparr> step_to = ''0xA'', step_data = ''0x095ea7b3'', step_value = ''0'',
            step_chainId = 421614 \<rparr>"
  let ?m = "\<lparr> step_to = ''0xM'', step_data = ''0xc6427474'', step_value = ''0'',
            step_chainId = 421614 \<rparr>"
  let ?P = "Some [\<lparr> step_to = ''0xA'', step_data = ''0x095ea7b3'', step_value = ''0'',
            step_chainId = 421614 \<rparr>,
          \<lparr> step_to = ''0xM'', step_data = ''0xc6427474'', step_value = ''0'',
            step_chainId = 421614 \<rparr>]"
  let ?inp = "\<lparr> txPlan = Some [\<lparr> step_to = ''0xA'', step_data = ''0x095ea7b3'', step_value = ''0'',
            step_chainId = 421614 \<rparr>,
          \<lparr> step_to = ''0xM'', step_data = ''0xc6427474'', step_value = ''0'',
            step_chainId = 421614 \<rparr>],
       isConnected = True, address = Some ''0xU'', currentChainId = Some 1 \<rparr>"
  let ?w = "\<lparr> switchChain = (\<lambda>c. False), sendTransaction = (\<lambda>st. Confirmed) \<rparr>"
  let ?s = "\<lparr> approvalIndex = 0, stepStatus = [Idle], mainStatus = Idle \<rparr>"
  let ?s1 = "\<lparr> approvalIndex = 1, stepStatus = [Success], mainStatus = Idle \<rparr>"
  have "initial ?P = ?s" by (simp add: initial_def totalApprovals_def)
  with reachable.attach [of ?P] have r: "reachable ?P ?s" by simp
  have h: "canApprove ?inp ?s \<and> approvalStep ?inp (approvalIndex ?s) = Some ?a \<and>
           currentChainId ?inp \<noteq> Some (step_chainId ?a)"
    by (simp add: canApprove_def planPresent_def isApprovalPhaseComplete_def
        totalApprovals_def anyPending_def approvalStep_def)
  have h': "canExecute ?inp ?s1 \<and> mainStep ?inp = Some ?m \<and>
            currentChainId ?inp \<noteq> Some (step_chainId ?m)"
    by (simp add: canExecute_def planPresent_def isApprovalPhaseComplete_def
        totalApprovals_def mainStep_def)
  from chain_switch_precedes_send [where inp = ?inp and s = ?s and st = ?a and w = ?w,
      THEN conjunct1] h
  have approve: "calls (approveNext ?inp ?w ?s) = [SwitchChain 421614] \<and>
      states (approveNext ?inp ?w ?s) =
        [\<lparr> approvalIndex = 0, stepStatus = [Error chain_switch_failed],
           mainStatus = Idle \<rparr>]"
    by (simp add: set_approval_status_def)
  from chain_switch_precedes_send
         [where inp = ?inp and s = ?s and st = ?a and w = ?w and plan = ?P,
          THEN conjunct2, THEN conjunct2] r h
  have read_back: "approvalError (final ?s (approveNext ?inp ?w ?s)) = Some chain_switch_failed"
    by simp
  from chain_switch_precedes_send [where inp = ?inp and s = ?s1 and st' = ?m and w = ?w,
      THEN conjunct2, THEN conjunct1] h'
  have execute: "calls (executeMain ?inp ?w ?s1) = [SwitchChain 421614] \<and>
      states (executeMain ?inp ?w ?s1) =
        [\<lparr> approvalIndex = 1, stepStatus = [Success],
           mainStatus = Error chain_switch_failed \<rparr>]"
    by (simp add: set_main_status_def)
  from r approve read_back execute show ?thesis by simp
qed

text \<open>
  Claim C4. In a state in which \<^verbatim>\<open>canApprove\<close> is false, \<^verbatim>\<open>approveNext()\<close> is a
  no-op: it makes no call on the wallet or the chain switch and no mutation, and
  leaves the whole state as it was.
\<close>

theorem approveNext_noop_unless_canApprove:
  "\<not> canApprove inp s \<longrightarrow>
     approveNext inp w s = no_op \<and> calls (approveNext inp w s) = [] \<and>
     final s (approveNext inp w s) = s"
  by (simp add: approveNext_def no_op_def final_def)

theorem approveNext_noop_unless_canApprove_witness:
  "\<not> canApprove
       \<lparr> txPlan = Some [\<lparr> step_to = ''0xA'', step_data = ''0x095ea7b3'', step_value = ''0'',
                           step_chainId = 421614 \<rparr>,
                         \<lparr> step_to = ''0xM'', step_data = ''0xc6427474'', step_value = ''0'',
                           step_chainId = 421614 \<rparr>],
         isConnected = False, address = None, currentChainId = None \<rparr>
       \<lparr> approvalIndex = 0, stepStatus = [Idle], mainStatus = Idle \<rparr> \<and>
   approveNext
       \<lparr> txPlan = Some [\<lparr> step_to = ''0xA'', step_data = ''0x095ea7b3'', step_value = ''0'',
                           step_chainId = 421614 \<rparr>,
                         \<lparr> step_to = ''0xM'', step_data = ''0xc6427474'', step_value = ''0'',
                           step_chainId = 421614 \<rparr>],
         isConnected = False, address = None, currentChainId = None \<rparr>
       \<lparr> switchChain = (\<lambda>c. True), sendTransaction = (\<lambda>st. Confirmed) \<rparr>
       \<lparr> approvalIndex = 0, stepStatus = [Idle], mainStatus = Idle \<rparr> = no_op \<and>
   final \<lparr> approvalIndex = 0, stepStatus = [Idle], mainStatus = Idle \<rparr>
     (approveNext
       \<lparr> txPlan = Some [\<lparr> step_to = ''0xA'', step_data = ''0x095ea7b3'', step_value = ''0'',
                           step_chainId = 421614 \<rparr>,
                         \<lparr> step_to = ''0xM'', step_data = ''0xc6427474'', step_value = ''0'',
                           step_chainId = 421614 \<rparr>],
         isConnected = False, address = None, currentChainId = None \<rparr>
       \<lparr> switchChain = (\<lambda>c. True), sendTransaction = (\<lambda>st. Confirmed) \<rparr>
       \<lparr> approvalIndex = 0, stepStatus = [Idle], mainStatus = Idle \<rparr>)
   = \<lparr> approvalIndex = 0, stepStatus = [Idle], mainStatus = Idle \<rparr>"
proof -
  let ?inp = "\<lparr> txPlan = Some [\<lparr> step_to = ''0xA'', step_data = ''0x095ea7b3'', step_value = ''0'',
                           step_chainId = 421614 \<rparr>,
                         \<lparr> step_to = ''0xM'', step_data = ''0xc6427474'', step_value = ''0'',
                           step_chainId = 421614 \<rparr>],
         isConnected = False, address = None, currentChainId = None \<rparr>"
  let ?s = "\<lparr> approvalIndex = 0, stepStatus = [Idle], mainStatus = Idle \<rparr>"
  have h: "\<not> canApprove ?inp ?s" by (simp add: canApprove_def)
  from approveNext_noop_unless_canApprove [of ?inp ?s "\<lparr> switchChain = (\<lambda>c. True), sendTransaction = (\<lambda>st. Confirmed) \<rparr>"] h
  show ?thesis by blast
qed

end
